theory Spec2Isabelle
  imports Complex_Main "HOL-Library.Word"
begin

section \<open>Shenandoah heap regions: the region state machine\<close>

text \<open>
  The development follows \<^verbatim>\<open>shenandoahHeapRegion.hpp\<close>. The class
  \<^verbatim>\<open>ShenandoahHeapRegion\<close> describes one fixed-size slice of the heap: its state,
  its address bounds, its allocation frontier and its bookkeeping counters.
\<close>

subsection \<open>Region states\<close>

text \<open>
  \<^verbatim>\<open>enum RegionState\<close>, in the order of its declaration. The C++ enumerators carry
  a leading underscore; the sentinel \<^verbatim>\<open>_REGION_STATES_NUM\<close> is the number of states
  and not a state.
\<close>

datatype RegionState =
    empty_uncommitted
  | empty_committed
  | regular
  | humongous_start
  | humongous_cont
  | pinned_humongous_start
  | cset
  | pinned
  | pinned_cset
  | trash




subsection \<open>State predicates\<close>

text \<open>
  The predicates of the header read the state once (\<^verbatim>\<open>auto cur_state = state()\<close>) and
  compare it; they are functions of the state alone and are modelled as such.
\<close>

definition is_empty_state :: "RegionState \<Rightarrow> bool" where
  "is_empty_state s \<longleftrightarrow> s = empty_committed \<or> s = empty_uncommitted"

definition is_humongous_start_state :: "RegionState \<Rightarrow> bool" where
  "is_humongous_start_state s \<longleftrightarrow> s = humongous_start \<or> s = pinned_humongous_start"

definition is_active :: "RegionState \<Rightarrow> bool" where
  "is_active s \<longleftrightarrow> \<not> is_empty_state s \<and> s \<noteq> trash"

definition is_humongous :: "RegionState \<Rightarrow> bool" where
  "is_humongous s \<longleftrightarrow> is_humongous_start_state s \<or> s = humongous_cont"

definition is_committed :: "RegionState \<Rightarrow> bool" where
  "is_committed s \<longleftrightarrow> s \<noteq> empty_uncommitted"

definition is_cset :: "RegionState \<Rightarrow> bool" where
  "is_cset s \<longleftrightarrow> s = cset \<or> s = pinned_cset"

definition is_pinned :: "RegionState \<Rightarrow> bool" where
  "is_pinned s \<longleftrightarrow> s = pinned \<or> s = pinned_cset \<or> s = pinned_humongous_start"

definition is_alloc_allowed :: "RegionState \<Rightarrow> bool" where
  "is_alloc_allowed s \<longleftrightarrow> is_empty_state s \<or> s = regular \<or> s = pinned"

subsection \<open>The region\<close>

text \<open>
  The fields of \<^verbatim>\<open>ShenandoahHeapRegion\<close>. A \<^verbatim>\<open>HeapWord*\<close> is modelled by the
  number of the heap word it points to, so that \<^verbatim>\<open>p + n\<close> on pointers is \<open>p + n\<close>
  on numbers and pointer comparison is comparison of numbers. The fields \<^verbatim>\<open>_end\<close>
  and \<^verbatim>\<open>_top\<close> are named \<open>end_addr\<close> and \<open>top_addr\<close>. The \<^verbatim>\<open>uint\<close> age is a
  32-bit word. The floating-point field \<^verbatim>\<open>_empty_time\<close> plays no part in what
  follows and is left out.
\<close>

record ShenandoahHeapRegion =
  index :: nat
  bottom :: nat
  end_addr :: nat
  new_top :: nat
  top_before_promoted :: nat
  state :: RegionState
  coalesce_and_fill_boundary :: nat
  top_addr :: nat
  tlab_allocs :: nat
  gclab_allocs :: nat
  plab_allocs :: nat
  live_data :: nat
  critical_pins :: nat
  update_watermark :: nat
  age :: "32 word"
  youth :: "32 word"
  recycling :: bool
  needs_bitmap_reset :: bool


text \<open>\<^verbatim>\<open>set_top\<close> and \<^verbatim>\<open>set_new_top\<close> store their argument; they test nothing.\<close>

definition set_top :: "nat \<Rightarrow> ShenandoahHeapRegion \<Rightarrow> ShenandoahHeapRegion" where
  "set_top v r = r\<lparr>top_addr := v\<rparr>"


text \<open>
  \<^verbatim>\<open>byte_size(p, q)\<close> is the distance from \<open>p\<close> up to \<open>q\<close> in bytes. The size
  of a heap word, \<^verbatim>\<open>HeapWordSize\<close>, is declared outside this header and is the
  parameter \<open>hws\<close>.
\<close>

definition byte_size :: "nat \<Rightarrow> nat \<Rightarrow> nat \<Rightarrow> nat" where
  "byte_size hws p q = (q - p) * hws"

definition capacity :: "nat \<Rightarrow> ShenandoahHeapRegion \<Rightarrow> nat" where
  "capacity hws r = byte_size hws (bottom r) (end_addr r)"


definition free_bytes :: "nat \<Rightarrow> ShenandoahHeapRegion \<Rightarrow> nat" where
  "free_bytes hws r = byte_size hws (top_addr r) (end_addr r)"

text \<open>\<^verbatim>\<open>contains(p)\<close>: does this region contain this address?\<close>

definition contains :: "ShenandoahHeapRegion \<Rightarrow> nat \<Rightarrow> bool" where
  "contains r p \<longleftrightarrow> bottom r \<le> p \<and> p < top_addr r"

definition block_is_obj :: "ShenandoahHeapRegion \<Rightarrow> nat \<Rightarrow> bool" where
  "block_is_obj r p \<longleftrightarrow> p < top_addr r"

subsection \<open>Coalesce-and-fill boundary\<close>

definition begin_preemptible_coalesce_and_fill ::
  "ShenandoahHeapRegion \<Rightarrow> ShenandoahHeapRegion" where
  "begin_preemptible_coalesce_and_fill r = r\<lparr>coalesce_and_fill_boundary := bottom r\<rparr>"

definition end_preemptible_coalesce_and_fill ::
  "ShenandoahHeapRegion \<Rightarrow> ShenandoahHeapRegion" where
  "end_preemptible_coalesce_and_fill r = r\<lparr>coalesce_and_fill_boundary := end_addr r\<rparr>"

definition suspend_coalesce_and_fill ::
  "nat \<Rightarrow> ShenandoahHeapRegion \<Rightarrow> ShenandoahHeapRegion" where
  "suspend_coalesce_and_fill next_focus r = r\<lparr>coalesce_and_fill_boundary := next_focus\<rparr>"

definition resume_coalesce_and_fill :: "ShenandoahHeapRegion \<Rightarrow> nat" where
  "resume_coalesce_and_fill r = coalesce_and_fill_boundary r"

subsection \<open>Region age\<close>

text \<open>
  \<^verbatim>\<open>increment_age\<close>. The constant \<^verbatim>\<open>markWord::max_age\<close> is declared outside this
  header and is the parameter \<open>max_age\<close>. The test \<^verbatim>\<open>_age++ >= max_age\<close> compares the
  value before the increment; the increment itself is the wrapping \<^verbatim>\<open>uint\<close> one. The
  assertion \<^verbatim>\<open>_age <= max_age\<close> is compiled into debug builds only and is not part
  of the function.
\<close>

definition increment_age :: "32 word \<Rightarrow> ShenandoahHeapRegion \<Rightarrow> ShenandoahHeapRegion" where
  "increment_age max_age r =
     (let old = age r; r1 = r\<lparr>age := old + 1\<rparr>
      in if old \<ge> max_age then r1\<lparr>age := max_age\<rparr> else r1)"


text \<open>Calling \<^verbatim>\<open>increment_age\<close> \<open>n\<close> times in a row.\<close>

fun increment_age_times :: "nat \<Rightarrow> 32 word \<Rightarrow> ShenandoahHeapRegion \<Rightarrow> ShenandoahHeapRegion" where
  "increment_age_times 0 max_age r = r"
| "increment_age_times (Suc n) max_age r = increment_age_times n max_age (increment_age max_age r)"



subsection \<open>Region geometry\<close>

text \<open>
  The static fields of the class that the size computations read. They are
  \<^verbatim>\<open>size_t\<close>, modelled as 64-bit words; arithmetic on them wraps around.
\<close>

record RegionGeometry =
  RegionCount :: "64 word"
  RegionSizeBytes :: "64 word"
  RegionSizeWords :: "64 word"
  RegionSizeBytesShift :: "64 word"
  RegionSizeWordsShift :: "64 word"

text \<open>
  \<^verbatim>\<open>required_regions(bytes)\<close> is
  \<^verbatim>\<open>(bytes + region_size_bytes() - 1) >> region_size_bytes_shift()\<close>.
\<close>

definition required_regions :: "RegionGeometry \<Rightarrow> 64 word \<Rightarrow> 64 word" where
  "required_regions g bytes =
     drop_bit (unat (RegionSizeBytesShift g)) (bytes + RegionSizeBytes g - 1)"

definition requires_humongous :: "RegionGeometry \<Rightarrow> 64 word \<Rightarrow> bool" where
  "requires_humongous g words \<longleftrightarrow> words > RegionSizeWords g"

text \<open>
  The geometry is set once, by \<^verbatim>\<open>setup_sizes\<close>, whose body is outside this header.
  What the size computations need of it is that the region size is the power of two
  named by the shift.
\<close>

definition geometry_ok :: "RegionGeometry \<Rightarrow> bool" where
  "geometry_ok g \<longleftrightarrow>
     unat (RegionSizeBytesShift g) < 64 \<and>
     RegionSizeBytes g = 2 ^ unat (RegionSizeBytesShift g)"

text \<open>A geometry with regions of 256 KB, that is \<open>2 ^ 18\<close> bytes or \<open>2 ^ 15\<close> words.\<close>

definition geometry_256K :: RegionGeometry where
  "geometry_256K =
     \<lparr>RegionCount = 16, RegionSizeBytes = 262144, RegionSizeWords = 32768,
      RegionSizeBytesShift = 18, RegionSizeWordsShift = 15\<rparr>"

subsection \<open>Live data and the bounds of a region\<close>



text \<open>A region of 100 words with 10 words allocated, in the state \<open>regular\<close>.\<close>

definition sample_region :: ShenandoahHeapRegion where
  "sample_region =
     \<lparr>index = 0, bottom = 0, end_addr = 100, new_top = 10, top_before_promoted = 0,
      state = regular, coalesce_and_fill_boundary = 0, top_addr = 10,
      tlab_allocs = 0, gclab_allocs = 0, plab_allocs = 0, live_data = 4,
      critical_pins = 0, update_watermark = 0, age = 0, youth = 0,
      recycling = False, needs_bitmap_reset = False\<rparr>"

subsection \<open>Allocation\<close>

text \<open>
  Modelled from the spec: the body of \<^verbatim>\<open>allocate\<close>, the body of
  \<^verbatim>\<open>adjust_alloc_metadata\<close> and the declaration of \<^verbatim>\<open>ShenandoahAllocRequest\<close> are not
  in the header. A request has one of four origins; a successful allocation adds its
  size to the tally of its origin. The header keeps three tallies; that of shared
  allocations is what remains of the used part.
\<close>

datatype alloc_type = ALLOC_SHARED | ALLOC_TLAB | ALLOC_GCLAB | ALLOC_PLAB

text \<open>
  Modelled from the spec: allocating in a state that does not allow it is a contract
  violation, which is fatal; it is the error value of an allocation and names the
  state the region was in.
\<close>

datatype fatal_error = AllocationNotAllowed RegionState

fun adjust_alloc_metadata :: "alloc_type \<Rightarrow> nat \<Rightarrow> ShenandoahHeapRegion \<Rightarrow> ShenandoahHeapRegion" where
  "adjust_alloc_metadata ALLOC_SHARED n r = r"
| "adjust_alloc_metadata ALLOC_TLAB n r = r\<lparr>tlab_allocs := tlab_allocs r + n\<rparr>"
| "adjust_alloc_metadata ALLOC_GCLAB n r = r\<lparr>gclab_allocs := gclab_allocs r + n\<rparr>"
| "adjust_alloc_metadata ALLOC_PLAB n r = r\<lparr>plab_allocs := plab_allocs r + n\<rparr>"

text \<open>
  Modelled from the spec: bump-pointer allocation. It is legal only in a state that
  allows allocation; it returns null, here \<open>None\<close>, and is not an error, when
  \<open>end - top < word_size\<close>; otherwise it returns the old top and moves the top up by
  \<open>word_size\<close>.
\<close>

definition allocate ::
  "nat \<Rightarrow> alloc_type \<Rightarrow> ShenandoahHeapRegion \<Rightarrow> fatal_error + (nat option \<times> ShenandoahHeapRegion)" where
  "allocate word_size req r =
     (if \<not> is_alloc_allowed (state r) then Inl (AllocationNotAllowed (state r))
      else if end_addr r - top_addr r < word_size then Inr (None, r)
      else Inr (Some (top_addr r),
                adjust_alloc_metadata req word_size (set_top (top_addr r + word_size) r)))"

subsection \<open>Humongous objects\<close>

text \<open>
  Modelled from the spec: the allocator that lays a humongous object out over regions
  is not in the header. Section 4.4: an object larger than one region occupies a
  \<open>humongous_start\<close> region followed by zero or more \<open>humongous_cont\<close> regions,
  contiguous by index. The list gives the index and the state of each of the \<open>n\<close>
  regions, from the region \<open>first\<close> on.
\<close>

definition humongous_span :: "nat \<Rightarrow> nat \<Rightarrow> (nat \<times> RegionState) list" where
  "humongous_span first n =
     (if n = 0 then []
      else (first, humongous_start) # map (\<lambda>i. (first + i, humongous_cont)) [1..<n])"

section \<open>Properties\<close>

subsection \<open>Pinned regions and the collection set\<close>

text \<open>
  C2. The claim is that no state is both pinned and in the collection set. The state
  \<open>pinned_cset\<close> is both: the header declares it as "region is pinned and in cset
  (evac failure path)", and both predicates list it.
\<close>

theorem pinned_cset_is_pinned_and_in_cset:
  "is_pinned pinned_cset \<and> is_cset pinned_cset"
  by (simp add: is_pinned_def is_cset_def)

text \<open>
  C2, as amended. The predicates \<open>is_pinned\<close> and \<open>is_cset\<close> hold together at
  exactly one state, \<open>pinned_cset\<close>; at each of the other nine states at most one of
  them holds.
\<close>

theorem pinned_and_cset_only_at_pinned_cset:
  "(is_pinned s \<and> is_cset s) = (s = pinned_cset)"
  by (cases s) (simp_all add: is_pinned_def is_cset_def)

subsection \<open>The age of a region\<close>

lemma increment_age_below:
  assumes "age r < max_age"
  shows "age (increment_age max_age r) = age r + 1"
    and "unat (age (increment_age max_age r)) = unat (age r) + 1"
proof -
  from assms have nle: "\<not> max_age \<le> age r" by simp
  then show "age (increment_age max_age r) = age r + 1"
    by (simp add: increment_age_def Let_def)
  from assms have "unat (age r) < unat max_age" by (simp add: word_less_nat_alt)
  moreover have "unat max_age < 2 ^ 32" using unsigned_less [of max_age] by simp
  ultimately have "unat (age r) + 1 < 2 ^ 32" by simp
  then have "unat (age r + 1) = unat (age r) + 1"
    by (simp add: unat_word_ariths)
  with nle show "unat (age (increment_age max_age r)) = unat (age r) + 1"
    by (simp add: increment_age_def Let_def)
qed

lemma increment_age_at_max:
  "max_age \<le> age r \<Longrightarrow> age (increment_age max_age r) = max_age"
  by (simp add: increment_age_def Let_def)

lemma increment_age_unat:
  assumes "age r \<le> max_age"
  shows "unat (age (increment_age max_age r)) = min (unat (age r) + 1) (unat max_age)"
proof (cases "age r < max_age")
  case True
  then have "unat (age r) < unat max_age" by (simp add: word_less_nat_alt)
  with increment_age_below(2) [OF True] show ?thesis by simp
next
  case False
  with assms have "age r = max_age" by simp
  then show ?thesis by (simp add: increment_age_at_max)
qed

lemma increment_age_le:
  "age r \<le> max_age \<Longrightarrow> age (increment_age max_age r) \<le> max_age"
  using increment_age_unat [of r max_age] by (simp add: word_le_nat_alt)

lemma increment_age_times_unat:
  "age r \<le> max_age \<Longrightarrow>
   unat (age (increment_age_times n max_age r)) = min (unat (age r) + n) (unat max_age)"
proof (induction n arbitrary: r)
  case 0
  then show ?case by (simp add: word_le_nat_alt)
next
  case (Suc n)
  have "unat (age (increment_age_times n max_age (increment_age max_age r)))
        = min (unat (age (increment_age max_age r)) + n) (unat max_age)"
    by (rule Suc.IH) (rule increment_age_le [OF Suc.prems])
  then show ?case
    by (simp add: increment_age_unat [OF Suc.prems])
qed

text \<open>
  C7. \<open>increment_age\<close> keeps the age clamped at \<open>max_age\<close>: below the maximum the
  age goes up by exactly one (and does not wrap around), at the maximum it stays
  there, and after any number of calls from age zero the age is the number of calls
  or the maximum, whichever is less, so never above the maximum.
\<close>

theorem increment_age_clamped:
  "(age r < max_age \<longrightarrow>
      age (increment_age max_age r) = age r + 1 \<and>
      unat (age (increment_age max_age r)) = unat (age r) + 1) \<and>
   (age r = max_age \<longrightarrow> age (increment_age max_age r) = max_age) \<and>
   (age r = 0 \<longrightarrow>
      age (increment_age_times n max_age r) \<le> max_age \<and>
      unat (age (increment_age_times n max_age r)) = min n (unat max_age))"
proof (intro conjI impI)
  assume "age r < max_age"
  then show "age (increment_age max_age r) = age r + 1"
    and "unat (age (increment_age max_age r)) = unat (age r) + 1"
    by (rule increment_age_below)+
next
  assume "age r = max_age"
  then show "age (increment_age max_age r) = max_age"
    by (simp add: increment_age_at_max)
next
  assume z: "age r = 0"
  then have le: "age r \<le> max_age" by simp
  from increment_age_times_unat [OF le, of n] z
  show u: "unat (age (increment_age_times n max_age r)) = min n (unat max_age)" by simp
  then show "age (increment_age_times n max_age r) \<le> max_age"
    by (simp add: word_le_nat_alt)
qed

theorem increment_age_clamped_witness:
  "age sample_region < 15 \<and> age (increment_age 15 sample_region) = 1 \<and>
   age (sample_region\<lparr>age := 15\<rparr>) = 15 \<and>
   age (increment_age 15 (sample_region\<lparr>age := 15\<rparr>)) = 15 \<and>
   age sample_region = 0 \<and> age (increment_age_times 20 15 sample_region) \<le> 15"
  using increment_age_clamped [of sample_region 15 20]
    increment_age_clamped [of "sample_region\<lparr>age := 15\<rparr>" 15 0]
  by (simp add: sample_region_def)

subsection \<open>The diagnostic ordinal\<close>






subsection \<open>The coalesce-and-fill boundary\<close>

text \<open>
  C9. The boundary survives a suspension: resuming after \<open>suspend_coalesce_and_fill p\<close>
  returns \<open>p\<close>, so the pass restarts at the saved point and not before it. Beginning a
  pass sets the boundary to \<open>bottom\<close> and ending it sets the boundary to \<open>end\<close>.
\<close>

theorem coalesce_boundary_round_trip:
  "resume_coalesce_and_fill (suspend_coalesce_and_fill p r) = p \<and>
   \<not> resume_coalesce_and_fill (suspend_coalesce_and_fill p r) < p \<and>
   resume_coalesce_and_fill (begin_preemptible_coalesce_and_fill r) = bottom r \<and>
   resume_coalesce_and_fill (end_preemptible_coalesce_and_fill r) = end_addr r"
  by (simp add: resume_coalesce_and_fill_def suspend_coalesce_and_fill_def
      begin_preemptible_coalesce_and_fill_def end_preemptible_coalesce_and_fill_def)

subsection \<open>Addresses a region contains\<close>

text \<open>
  C10. \<open>contains r p\<close> holds exactly when \<open>bottom \<le> p < top\<close>. An address in the
  unallocated tail, from \<open>top\<close> up to \<open>end\<close>, lies inside the bounds of the region
  and is not contained.
\<close>

theorem contains_below_top:
  "(contains r p \<longleftrightarrow> bottom r \<le> p \<and> p < top_addr r) \<and>
   (bottom r \<le> p \<and> top_addr r \<le> p \<and> p < end_addr r \<longrightarrow> \<not> contains r p)"
  by (simp add: contains_def)

theorem contains_below_top_witness:
  "bottom sample_region \<le> 50 \<and> top_addr sample_region \<le> 50 \<and>
   50 < end_addr sample_region \<and> \<not> contains sample_region 50 \<and>
   contains sample_region 9"
  using contains_below_top [of sample_region 50] contains_below_top [of sample_region 9]
  by (simp add: sample_region_def)

subsection \<open>The bounds of a region\<close>




subsection \<open>States that allow allocation\<close>

text \<open>
  C4. \<open>is_alloc_allowed\<close> holds exactly in the states \<open>empty_uncommitted\<close>,
  \<open>empty_committed\<close>, \<open>regular\<close> and \<open>pinned\<close>. An allocation that returns, with an
  address or with null, was made in such a state; in any other state it is a fatal
  error.
\<close>

theorem is_alloc_allowed_states:
  "(is_alloc_allowed (state r) \<longleftrightarrow>
      state r \<in> {empty_uncommitted, empty_committed, regular, pinned}) \<and>
   (allocate word_size req r = Inr res \<longrightarrow> is_alloc_allowed (state r)) \<and>
   (\<not> is_alloc_allowed (state r) \<longrightarrow>
      allocate word_size req r = Inl (AllocationNotAllowed (state r)))"
  by (cases "state r") (simp_all add: is_alloc_allowed_def is_empty_state_def allocate_def)

theorem is_alloc_allowed_states_witness:
  "allocate 91 ALLOC_SHARED sample_region = Inr (None, sample_region) \<and>
   is_alloc_allowed (state sample_region) \<and>
   \<not> is_alloc_allowed (state (sample_region\<lparr>state := cset\<rparr>)) \<and>
   allocate 1 ALLOC_SHARED (sample_region\<lparr>state := cset\<rparr>) = Inl (AllocationNotAllowed cset)"
proof -
  have a: "allocate 91 ALLOC_SHARED sample_region = Inr (None, sample_region)"
    by (simp add: allocate_def sample_region_def is_alloc_allowed_def)
  have b: "\<not> is_alloc_allowed (state (sample_region\<lparr>state := cset\<rparr>))"
    by (simp add: is_alloc_allowed_def is_empty_state_def)
  from a b is_alloc_allowed_states [of sample_region 91 ALLOC_SHARED "(None, sample_region)"]
    is_alloc_allowed_states [of "sample_region\<lparr>state := cset\<rparr>" 1 ALLOC_SHARED]
  show ?thesis by (simp add: sample_region_def)
qed

subsection \<open>Allocation\<close>

text \<open>
  C5. In a state that allows allocation, \<open>allocate\<close> returns null and leaves the
  region as it was when \<open>end - top < word_size\<close>, and this is not an error; otherwise
  it returns the old top and the new top is the old one plus \<open>word_size\<close>, with the
  bounds and the state of the region unchanged.
\<close>

theorem allocate_null_or_bump:
  "is_alloc_allowed (state r) \<longrightarrow>
     (end_addr r - top_addr r < word_size \<longrightarrow> allocate word_size req r = Inr (None, r)) \<and>
     (\<not> end_addr r - top_addr r < word_size \<longrightarrow>
        (\<exists>r'. allocate word_size req r = Inr (Some (top_addr r), r') \<and>
              top_addr r' = top_addr r + word_size \<and>
              bottom r' = bottom r \<and> end_addr r' = end_addr r \<and> state r' = state r))"
  by (cases req) (simp_all add: allocate_def set_top_def)

theorem allocate_null_or_bump_witness:
  "is_alloc_allowed (state sample_region) \<and>
   end_addr sample_region - top_addr sample_region < 91 \<and>
   allocate 91 ALLOC_SHARED sample_region = Inr (None, sample_region) \<and>
   \<not> end_addr sample_region - top_addr sample_region < 90 \<and>
   allocate 90 ALLOC_TLAB sample_region
     = Inr (Some 10, sample_region\<lparr>top_addr := 100, tlab_allocs := 90\<rparr>)"
proof -
  have a: "is_alloc_allowed (state sample_region)"
    by (simp add: sample_region_def is_alloc_allowed_def)
  have "allocate 90 ALLOC_TLAB sample_region
     = Inr (Some 10, sample_region\<lparr>top_addr := 100, tlab_allocs := 90\<rparr>)"
    by (simp add: allocate_def set_top_def sample_region_def is_alloc_allowed_def)
  with a allocate_null_or_bump [of sample_region 91 ALLOC_SHARED]
  show ?thesis by (simp add: sample_region_def)
qed

subsection \<open>Regions required for a size\<close>

lemma ceiling_nat_div:
  fixes a S :: nat
  assumes "0 < S"
  shows "\<lceil>real a / real S\<rceil> = int ((a + S - 1) div S)"
proof -
  define q where "q = (a + S - 1) div S"
  have lo: "q * S \<le> a + S - 1" unfolding q_def by simp
  have hi: "a + S - 1 < (q + 1) * S"
    unfolding q_def using assms dividend_less_div_times [of S "a + S - 1"] by (simp add: algebra_simps)
  from hi assms have le: "a \<le> q * S" by simp
  from lo assms have gt: "q * S < a + S" by simp
  have "real a \<le> real q * real S"
    using le by (metis of_nat_le_iff of_nat_mult)
  then have up: "real a / real S \<le> real q"
    using assms by (simp add: divide_le_eq)
  have "real q * real S < real a + real S"
    using gt by (metis of_nat_less_iff of_nat_mult of_nat_add)
  then have "(real q - 1) * real S < real a" by (simp add: algebra_simps)
  then have down: "real q - 1 < real a / real S"
    using assms by (simp add: less_divide_eq)
  have "\<lceil>real a / real S\<rceil> = int q"
    by (rule ceiling_unique) (use up down in simp_all)
  then show ?thesis by (simp add: q_def)
qed

lemma unat_required_regions:
  assumes ok: "geometry_ok g"
    and fit: "unat bytes + unat (RegionSizeBytes g) - 1 < 2 ^ 64"
  shows "unat (required_regions g bytes)
         = (unat bytes + unat (RegionSizeBytes g) - 1) div unat (RegionSizeBytes g)"
proof -
  define k where "k = unat (RegionSizeBytesShift g)"
  from ok have k: "k < 64" and S: "RegionSizeBytes g = 2 ^ k"
    by (simp_all add: geometry_ok_def k_def)
  have "(2::nat) ^ k < 2 ^ 64" using k by (intro power_strict_increasing) simp_all
  moreover have "unat ((2::64 word) ^ k) = 2 ^ k mod 2 ^ 64"
    using unat_of_nat [where 'a = 64, of "2 ^ k"] by simp
  ultimately have uS: "unat (RegionSizeBytes g) = 2 ^ k"
    by (simp add: S)
  have Snz: "RegionSizeBytes g \<noteq> 0"
    using uS by (metis power_not_zero unat_0 zero_neq_numeral)
  have "unat (RegionSizeBytes g - 1) = 2 ^ k - 1"
    using unat_minus_one [OF Snz] uS by simp
  moreover have "unat bytes + (2 ^ k - 1) < 2 ^ 64"
    using fit uS by simp
  ultimately have "unat (bytes + (RegionSizeBytes g - 1)) = unat bytes + (2 ^ k - 1)"
    using unat_add_lem [of bytes "RegionSizeBytes g - 1"] by simp
  then have sum: "unat (bytes + RegionSizeBytes g - 1) = unat bytes + 2 ^ k - 1"
    by (simp add: add_diff_eq)
  have "unat (required_regions g bytes) = drop_bit k (unat (bytes + RegionSizeBytes g - 1))"
    unfolding required_regions_def k_def by (rule unat_drop_bit_eq)
  also have "\<dots> = unat (bytes + RegionSizeBytes g - 1) div 2 ^ k"
    by (rule drop_bit_eq_div)
  finally show ?thesis using sum uS by simp
qed

lemma geometry_256K_ok: "geometry_ok geometry_256K"
  by (simp add: geometry_ok_def geometry_256K_def)

text \<open>
  C6. The claim is that \<open>required_regions\<close> is the ceiling of the byte count over the
  region size for every byte count. The sum \<open>bytes + region_size_bytes - 1\<close> is
  computed in \<^verbatim>\<open>size_t\<close> and wraps around: with regions of 256 KB and the
  largest byte count the result is 0 regions, where the ceiling is \<open>2 ^ 46\<close>.
\<close>

theorem required_regions_wraps_around:
  "geometry_ok geometry_256K \<and>
   required_regions geometry_256K 18446744073709551615 = 0 \<and>
   \<lceil>real (unat (18446744073709551615 :: 64 word)) / real (unat (RegionSizeBytes geometry_256K))\<rceil>
     = 70368744177664"
proof -
  have "required_regions geometry_256K 18446744073709551615 = 0"
    by (simp add: required_regions_def geometry_256K_def)
  moreover have "\<lceil>real (unat (18446744073709551615 :: 64 word)) / real (unat (RegionSizeBytes geometry_256K))\<rceil>
     = 70368744177664"
    by (simp add: geometry_256K_def ceiling_nat_div)
  ultimately show ?thesis by (simp add: geometry_256K_ok)
qed

text \<open>
  C6, as amended. When the region size is the power of two named by the shift and
  the sum \<open>bytes + region_size_bytes - 1\<close> does not wrap around,
  \<open>required_regions\<close> is the ceiling of \<open>bytes\<close> over \<open>region_size_bytes\<close>.
  \<open>requires_humongous\<close> holds exactly when the size in words exceeds
  \<open>region_size_words\<close>. An object of 800 KB with regions of 256 KB is humongous
  and needs 4 regions: one \<open>humongous_start\<close> followed by three \<open>humongous_cont\<close>,
  contiguous by index.
\<close>

theorem required_regions_ceiling:
  "(geometry_ok g \<and> unat bytes + unat (RegionSizeBytes g) - 1 < 2 ^ 64 \<longrightarrow>
      int (unat (required_regions g bytes))
        = \<lceil>real (unat bytes) / real (unat (RegionSizeBytes g))\<rceil>) \<and>
   (requires_humongous g words \<longleftrightarrow> unat words > unat (RegionSizeWords g)) \<and>
   required_regions geometry_256K (800 * 1024) = 4 \<and>
   requires_humongous geometry_256K (800 * 1024 div 8) \<and>
   humongous_span first (unat (required_regions geometry_256K (800 * 1024)))
     = [(first, humongous_start), (first + 1, humongous_cont),
        (first + 2, humongous_cont), (first + 3, humongous_cont)]"
proof (intro conjI impI)
  assume a: "geometry_ok g \<and> unat bytes + unat (RegionSizeBytes g) - 1 < 2 ^ 64"
  then have pos: "0 < unat (RegionSizeBytes g)"
    by (simp add: geometry_ok_def unat_gt_0)
  from a show "int (unat (required_regions g bytes))
        = \<lceil>real (unat bytes) / real (unat (RegionSizeBytes g))\<rceil>"
    by (simp only: unat_required_regions ceiling_nat_div [OF pos])
next
  show "requires_humongous g words \<longleftrightarrow> unat words > unat (RegionSizeWords g)"
    by (simp add: requires_humongous_def word_less_nat_alt)
next
  show r4: "required_regions geometry_256K (800 * 1024) = 4"
    by (simp add: required_regions_def geometry_256K_def)
  show "requires_humongous geometry_256K (800 * 1024 div 8)"
    by (simp add: requires_humongous_def geometry_256K_def)
  show "humongous_span first (unat (required_regions geometry_256K (800 * 1024)))
     = [(first, humongous_start), (first + 1, humongous_cont),
        (first + 2, humongous_cont), (first + 3, humongous_cont)]"
    using r4 by (simp add: humongous_span_def upt_rec)
qed

theorem required_regions_ceiling_witness:
  "geometry_ok geometry_256K \<and>
   unat (1000000 :: 64 word) + unat (RegionSizeBytes geometry_256K) - 1 < 2 ^ 64 \<and>
   int (unat (required_regions geometry_256K 1000000))
     = \<lceil>real (unat (1000000 :: 64 word)) / real (unat (RegionSizeBytes geometry_256K))\<rceil> \<and>
   required_regions geometry_256K 1000000 = 4"
proof -
  have fit: "unat (1000000 :: 64 word) + unat (RegionSizeBytes geometry_256K) - 1 < 2 ^ 64"
    by (simp add: geometry_256K_def)
  have "required_regions geometry_256K 1000000 = 4"
    by (simp add: required_regions_def geometry_256K_def)
  with fit geometry_256K_ok required_regions_ceiling [of geometry_256K 1000000]
  show ?thesis by simp
qed

end
